theory Spec2Isabelle
  imports Main
begin

section \<open>The real-time relay of server.js\<close>

text \<open>
  The relay is the \<^verbatim>\<open>io.on('connection', ...)\<close> block of server.js: one handler for
  \<^verbatim>\<open>join-session\<close>, one each for \<^verbatim>\<open>caption-update\<close>, \<^verbatim>\<open>chat-message\<close> and
  \<^verbatim>\<open>summary-update\<close>, and a \<^verbatim>\<open>disconnect\<close> handler that only logs. Everything else is
  done by Socket.IO, whose documented room interface is modelled below: a room is a
  set of socket ids kept in a table from room names to sets, \<^verbatim>\<open>socket.join(r)\<close> adds the
  socket to the set of \<^verbatim>\<open>r\<close>, \<^verbatim>\<open>socket.to(r).emit(ev, data)\<close> sends \<^verbatim>\<open>ev\<close> with \<^verbatim>\<open>data\<close> to
  every socket of room \<^verbatim>\<open>r\<close> except the socket itself, every socket starts in the room
  named by its own id, and a socket that disconnects leaves all its rooms.
\<close>

subsection \<open>Values on the wire\<close>

text \<open>
  Event arguments are JavaScript values decoded from the packet. Numbers are
  restricted to integers and arrays are left out (no payload built by the client in
  SummaryDashboard.js contains one). An object is a list of fields; a later field
  with the same key overrides an earlier one.
\<close>

datatype jsval =
    JUndefined
  | JNull
  | JBool bool
  | JNum int
  | JStr string
  | JObj "(string \<times> jsval) list"

datatype js_error = TypeError

text \<open>
  Property access \<^verbatim>\<open>data.k\<close>: reading a property of \<^verbatim>\<open>undefined\<close> or \<^verbatim>\<open>null\<close> throws a
  TypeError, a missing property reads as \<^verbatim>\<open>undefined\<close>, and booleans, numbers and strings
  have no property of the names used here.
\<close>

fun get_prop :: "jsval \<Rightarrow> string \<Rightarrow> js_error + jsval" where
  "get_prop JUndefined k = Inl TypeError"
| "get_prop JNull k = Inl TypeError"
| "get_prop (JObj kvs) k = Inr (case map_of (rev kvs) k of None \<Rightarrow> JUndefined | Some v \<Rightarrow> v)"
| "get_prop (JBool b) k = Inr JUndefined"
| "get_prop (JNum n) k = Inr JUndefined"
| "get_prop (JStr s) k = Inr JUndefined"

subsection \<open>Rooms\<close>

type_synonym socket_id = string

text \<open>
  Room names are the keys of a JavaScript \<^verbatim>\<open>Map\<close>, which compares primitive values by
  value. An object is compared by reference, and every packet decodes to a fresh
  object, so a room named by an object can never be named again by a later event:
  \<open>as_room\<close> gives \<open>None\<close> for it, joining it changes nothing that any event can
  observe, and sending to it reaches nobody.
\<close>

datatype room = RUndefined | RNull | RBool bool | RNum int | RStr string

fun as_room :: "jsval \<Rightarrow> room option" where
  "as_room JUndefined = Some RUndefined"
| "as_room JNull = Some RNull"
| "as_room (JBool b) = Some (RBool b)"
| "as_room (JNum n) = Some (RNum n)"
| "as_room (JStr s) = Some (RStr s)"
| "as_room (JObj kvs) = None"

fun room_val :: "room \<Rightarrow> jsval" where
  "room_val RUndefined = JUndefined"
| "room_val RNull = JNull"
| "room_val (RBool b) = JBool b"
| "room_val (RNum n) = JNum n"
| "room_val (RStr s) = JStr s"

text \<open>
  The adapter's two tables: \<open>rooms\<close> from a room name to its members and \<open>sids\<close>
  from a socket id to the rooms it is in. A room that is absent from \<open>rooms\<close> does not
  exist.
\<close>

record relay =
  rooms :: "room \<rightharpoonup> socket_id set"
  sids :: "socket_id \<rightharpoonup> room set"

definition initial :: relay where
  "initial = \<lparr>rooms = Map.empty, sids = Map.empty\<rparr>"

definition membersOf :: "relay \<Rightarrow> room \<Rightarrow> socket_id set" where
  "membersOf st r = (case rooms st r of None \<Rightarrow> {} | Some S \<Rightarrow> S)"

definition roomsOf :: "relay \<Rightarrow> socket_id \<Rightarrow> room set" where
  "roomsOf st sid = (case sids st sid of None \<Rightarrow> {} | Some R \<Rightarrow> R)"

text \<open>Adding a socket to a room creates the room when it is absent.\<close>

definition adapter_add :: "relay \<Rightarrow> socket_id \<Rightarrow> room \<Rightarrow> relay" where
  "adapter_add st sid r =
     st\<lparr>rooms := (rooms st)(r \<mapsto> insert sid (membersOf st r)),
        sids := (sids st)(sid \<mapsto> insert r (roomsOf st sid))\<rparr>"

text \<open>
  Removing a socket from all its rooms, as Socket.IO does when the socket
  disconnects; a room left empty is deleted.
\<close>

definition adapter_del_all :: "relay \<Rightarrow> socket_id \<Rightarrow> relay" where
  "adapter_del_all st sid =
     (case sids st sid of
        None \<Rightarrow> st
      | Some R \<Rightarrow>
          st\<lparr>rooms := (\<lambda>r. if r \<in> R
                             then (case rooms st r of
                                     None \<Rightarrow> None
                                   | Some S \<Rightarrow> if S - {sid} = {} then None else Some (S - {sid}))
                             else rooms st r),
             sids := (sids st)(sid := None)\<rparr>)"

text \<open>\<^verbatim>\<open>socket.join(sessionId)\<close>\<close>

definition socket_join :: "relay \<Rightarrow> socket_id \<Rightarrow> jsval \<Rightarrow> relay" where
  "socket_join st sid v = (case as_room v of None \<Rightarrow> st | Some r \<Rightarrow> adapter_add st sid r)"

text \<open>
  \<^verbatim>\<open>socket.to(room).emit(ev, data)\<close>: one emission, addressed to the members of the
  room other than the socket itself.
\<close>

record emission =
  em_to :: "socket_id set"
  em_event :: string
  em_data :: jsval

definition socket_to :: "relay \<Rightarrow> socket_id \<Rightarrow> jsval \<Rightarrow> socket_id set" where
  "socket_to st sid v = (case as_room v of None \<Rightarrow> {} | Some r \<Rightarrow> membersOf st r - {sid})"

definition socket_to_emit :: "relay \<Rightarrow> socket_id \<Rightarrow> jsval \<Rightarrow> string \<Rightarrow> jsval \<Rightarrow> emission" where
  "socket_to_emit st sid v ev data = \<lparr>em_to = socket_to st sid v, em_event = ev, em_data = data\<rparr>"

subsection \<open>The handlers registered on a connection\<close>

text \<open>
  \<^verbatim>\<open>socket.on('join-session', (sessionId) => { socket.join(sessionId); ... })\<close>
\<close>

definition on_join_session :: "relay \<Rightarrow> socket_id \<Rightarrow> jsval \<Rightarrow> js_error + relay \<times> emission list" where
  "on_join_session st sid sessionId = Inr (socket_join st sid sessionId, [])"

text \<open>
  \<^verbatim>\<open>socket.on(ev, (data) => { socket.to(data.sessionId).emit(ev, data); })\<close>, the shape
  of the three forwarding handlers.
\<close>

definition forward :: "string \<Rightarrow> relay \<Rightarrow> socket_id \<Rightarrow> jsval \<Rightarrow> js_error + relay \<times> emission list" where
  "forward ev st sid data =
     (case get_prop data ''sessionId'' of
        Inl e \<Rightarrow> Inl e
      | Inr v \<Rightarrow> Inr (st, [socket_to_emit st sid v ev data]))"

definition on_caption_update :: "relay \<Rightarrow> socket_id \<Rightarrow> jsval \<Rightarrow> js_error + relay \<times> emission list" where
  "on_caption_update = forward ''caption-update''"

definition on_chat_message :: "relay \<Rightarrow> socket_id \<Rightarrow> jsval \<Rightarrow> js_error + relay \<times> emission list" where
  "on_chat_message = forward ''chat-message''"

definition on_summary_update :: "relay \<Rightarrow> socket_id \<Rightarrow> jsval \<Rightarrow> js_error + relay \<times> emission list" where
  "on_summary_update = forward ''summary-update''"

text \<open>
  Dispatch of an inbound event by name. An event with no listener registered
  (\<^verbatim>\<open>leave-session\<close> and \<^verbatim>\<open>typing\<close>, which the client emits, among them) is dropped.
\<close>

definition on_packet :: "relay \<Rightarrow> socket_id \<Rightarrow> string \<Rightarrow> jsval \<Rightarrow> js_error + relay \<times> emission list" where
  "on_packet st sid name arg =
     (if name = ''join-session'' then on_join_session st sid arg
      else if name = ''caption-update'' then on_caption_update st sid arg
      else if name = ''chat-message'' then on_chat_message st sid arg
      else if name = ''summary-update'' then on_summary_update st sid arg
      else Inr (st, []))"

text \<open>
  What reaches the server: a transport connects (the socket joins the room of its
  own id), a connected socket sends an event, or a socket disconnects (the handler
  of server.js only logs; Socket.IO removes the socket from its rooms).
\<close>

datatype input = Connect socket_id | Packet socket_id string jsval | Disconnect socket_id

fun step :: "relay \<Rightarrow> input \<Rightarrow> js_error + relay \<times> emission list" where
  "step st (Connect sid) = Inr (adapter_add st sid (RStr sid), [])"
| "step st (Packet sid name arg) =
     (if sids st sid = None then Inr (st, []) else on_packet st sid name arg)"
| "step st (Disconnect sid) = Inr (adapter_del_all st sid, [])"

text \<open>A run of inputs, collecting the emissions in order; it stops at the first throw.\<close>

fun run :: "relay \<Rightarrow> input list \<Rightarrow> js_error + relay \<times> emission list" where
  "run st [] = Inr (st, [])"
| "run st (i # is) =
     (case step st i of
        Inl e \<Rightarrow> Inl e
      | Inr (st', out) \<Rightarrow>
          (case run st' is of
             Inl e \<Rightarrow> Inl e
           | Inr (st'', out') \<Rightarrow> Inr (st'', out @ out')))"

inductive reachable :: "relay \<Rightarrow> bool" where
  reachable_initial: "reachable initial"
| reachable_step: "reachable st \<Longrightarrow> step st i = Inr (st', out) \<Longrightarrow> reachable st'"

text \<open>The two tables of the adapter agree.\<close>

definition consistent :: "relay \<Rightarrow> bool" where
  "consistent st = (\<forall>sid r. (sid \<in> membersOf st r) = (r \<in> roomsOf st sid))"

section \<open>The summary service (services/geminiService.js)\<close>

subsection \<open>JavaScript string operations\<close>

text \<open>
  Strings are modelled as lists of characters; the whitespace class \<^verbatim>\<open>\s\<close> is
  restricted to its ASCII members (space, tab, line feed, vertical tab, form feed,
  carriage return).
\<close>

definition is_space :: "char \<Rightarrow> bool" where
  "is_space c = (c = CHR '' '' \<or> c = CHR 0x09 \<or> c = CHR 0x0A \<or> c = CHR 0x0B
                 \<or> c = CHR 0x0C \<or> c = CHR 0x0D)"

text \<open>The class \<^verbatim>\<open>[.!?]\<close>.\<close>

definition is_sentence_end :: "char \<Rightarrow> bool" where
  "is_sentence_end c = (c = CHR ''.'' \<or> c = CHR ''!'' \<or> c = CHR ''?'')"

text \<open>
  \<^verbatim>\<open>s.split(/[class]+/)\<close>: the pieces between maximal runs of separator characters. A
  separator run at the start or at the end leaves an empty piece there, and the
  empty string splits into one empty piece. The flag says whether the previous
  character was a separator.
\<close>

fun split_runs :: "(char \<Rightarrow> bool) \<Rightarrow> bool \<Rightarrow> string \<Rightarrow> string \<Rightarrow> string list" where
  "split_runs p insep acc [] = [acc]"
| "split_runs p insep acc (c # cs) =
     (if p c then (if insep then split_runs p True acc cs
                   else acc # split_runs p True [] cs)
      else split_runs p False (acc @ [c]) cs)"

definition split_re :: "(char \<Rightarrow> bool) \<Rightarrow> string \<Rightarrow> string list" where
  "split_re p s = split_runs p False [] s"

text \<open>\<^verbatim>\<open>s.trim()\<close>\<close>

definition trim :: "string \<Rightarrow> string" where
  "trim s = rev (dropWhile is_space (rev (dropWhile is_space s)))"

text \<open>\<^verbatim>\<open>xs.join(sep)\<close>\<close>

fun join_with :: "string \<Rightarrow> string list \<Rightarrow> string" where
  "join_with sep [] = []"
| "join_with sep [x] = x"
| "join_with sep (x # y # ys) = x @ sep @ join_with sep (y # ys)"

text \<open>\<^verbatim>\<open>xs.filter((_, i) => i % 3 === 0)\<close>\<close>

definition every_third :: "'a list \<Rightarrow> 'a list" where
  "every_third xs = map fst (filter (\<lambda>(x, i). i mod 3 = 0) (zip xs [0..<length xs]))"

text \<open>\<^verbatim>\<open>xs.slice(-15)\<close>: the last fifteen elements, or all of them when there are fewer.\<close>

definition slice_last :: "nat \<Rightarrow> 'a list \<Rightarrow> 'a list" where
  "slice_last n xs = drop (length xs - n) xs"

subsection \<open>generateSummary\<close>

text \<open>
  The service object. Its \<^verbatim>\<open>model\<close> is the external generative model:
  \<^verbatim>\<open>model.generateContent(prompt)\<close> followed by \<^verbatim>\<open>response.text()\<close> maps a prompt to a
  response text, or throws (\<open>None\<close>).
\<close>

record GeminiService =
  model :: "string \<Rightarrow> string option"

record summary =
  content :: string
  keyPoints :: "string list"
  actionItems :: "string list"

text \<open>
  \<^verbatim>\<open>async generateSummary(transcripts, summaryType = 'rolling')\<close>, a method of the
  service (\<open>this\<close> is its first argument). An absent summary type (\<open>None\<close>) takes
  the default. The body works on strings only and calls nothing that can throw on a
  list of strings, so the \<^verbatim>\<open>catch\<close> branch is never taken.
\<close>

definition generateSummary :: "GeminiService \<Rightarrow> string list \<Rightarrow> string option \<Rightarrow> summary" where
  "generateSummary this transcripts summaryType =
     (let ty = (case summaryType of None \<Rightarrow> ''rolling'' | Some t \<Rightarrow> t);
          conversationText = join_with '' '' transcripts;
          words = filter (\<lambda>word. length word > 2) (split_re is_space conversationText)
      in if ty = ''key_points'' then
           (let phrases = filter (\<lambda>phrase. length (trim phrase) > 10)
                            (split_re is_sentence_end conversationText);
                kps = map trim (take 5 phrases)
            in \<lparr>content = ''Key points discussed: '' @ join_with ''. '' kps @ ''.'',
                keyPoints = kps,
                actionItems = []\<rparr>)
         else if ty = ''final'' then
           (let selectedWords = take 20 (every_third words)
            in \<lparr>content = ''The discussion covered '' @ join_with '', '' selectedWords
                            @ ''. Key topics included advancements and implementations. Conclusions focused on challenges and solutions.'',
                keyPoints = [],
                actionItems = [''Follow up on implementation details'', ''Schedule next meeting'']\<rparr>)
         else
           (let recentWords = slice_last 15 words
            in \<lparr>content = ''Recent developments: '' @ join_with '' '' recentWords
                            @ ''. The conversation is progressing well.'',
                keyPoints = [],
                actionItems = []\<rparr>))"

subsection \<open>translateText, an operation that does call the external model\<close>

text \<open>
  When the model throws, the service throws \<^verbatim>\<open>Failed to translate text\<close>. An absent
  source language takes the default \<^verbatim>\<open>auto\<close>.
\<close>

definition translateText ::
  "GeminiService \<Rightarrow> string \<Rightarrow> string \<Rightarrow> string option \<Rightarrow> string + string" where
  "translateText this text targetLanguage sourceLanguage =
     (let src = (case sourceLanguage of None \<Rightarrow> ''auto'' | Some l \<Rightarrow> l);
          prompt = ''Translate the following text to '' @ targetLanguage
                   @ ''. Source language: '' @ src @ ''. Text: '' @ [CHR 0x22] @ text @ [CHR 0x22]
      in case model this prompt of
           None \<Rightarrow> Inl ''Failed to translate text''
         | Some response \<Rightarrow> Inr (trim response))"

section \<open>The REST routes that the claims cite\<close>

subsection \<open>Tables (database/schema.sql), with the columns the routes read or write\<close>

record session_row =
  s_id :: int
  s_host_id :: int
  s_status :: string

record participant_row =
  p_session_id :: int
  p_user_id :: int

record transcript_row =
  t_session_id :: int
  t_text :: string
  t_timestamp :: int

record summary_row =
  sm_id :: int
  sm_session_id :: int
  sm_summary_type :: "string option"
  sm_content :: string
  sm_key_points :: "string list"
  sm_action_items :: "string list"
  sm_created_at :: int

record db =
  users :: "int list"
  sessions :: "session_row list"
  session_participants :: "participant_row list"
  transcripts :: "transcript_row list"
  summaries :: "summary_row list"

datatype body = ErrorBody string | MessageBody string | SummaryBody summary_row

record response =
  status :: nat
  body :: body

subsection \<open>How the route modules get their pool\<close>

text \<open>
  The top level of server.js creates the pool (line 142), requires the route
  modules (lines 158 to 160) and only in its last statement (line 222) sets
  \<^verbatim>\<open>module.exports = { app, server, io, pool }\<close>. Every route module begins with
  \<^verbatim>\<open>const { pool } = require('../server')\<close>. It runs while server.js is still being
  loaded, so it receives the exports object of server.js as it is at that moment,
  and the destructuring binds \<^verbatim>\<open>pool\<close> once: a property that the object does not
  have yet is bound as \<^verbatim>\<open>undefined\<close> (\<open>None\<close>).
\<close>

datatype pg_pool = PgPool

datatype top_level = NewPool | RequireRoutes | SetModuleExports

record loading =
  local_pool :: "pg_pool option"
  exported_pool :: "pg_pool option"
  required_pool :: "pg_pool option"

fun exec_top_level :: "top_level \<Rightarrow> loading \<Rightarrow> loading" where
  "exec_top_level NewPool l = l\<lparr>local_pool := Some PgPool\<rparr>"
| "exec_top_level RequireRoutes l = l\<lparr>required_pool := exported_pool l\<rparr>"
| "exec_top_level SetModuleExports l = l\<lparr>exported_pool := local_pool l\<rparr>"

definition load_module :: "top_level list \<Rightarrow> loading" where
  "load_module prog =
     fold exec_top_level prog \<lparr>local_pool = None, exported_pool = None, required_pool = None\<rparr>"

definition server_js :: "top_level list" where
  "server_js = [NewPool, RequireRoutes, SetModuleExports]"

text \<open>The \<^verbatim>\<open>pool\<close> of routes/sessions.js and routes/transcripts.js.\<close>

definition routes_pool :: "pg_pool option" where
  "routes_pool = required_pool (load_module server_js)"

subsection \<open>The queries\<close>

text \<open>
  The id columns are of type \<^verbatim>\<open>INTEGER\<close>: a query whose parameter is compared with
  one and lies outside the 32-bit range fails.
\<close>

definition int4 :: "int \<Rightarrow> bool" where
  "int4 x = (- 2147483648 \<le> x \<and> x \<le> 2147483647)"

text \<open>
  \<^verbatim>\<open>SELECT * FROM sessions WHERE id = $1 AND status = 'active'\<close> (sessions.js), the only
  place of the repository that asks whether a session exists and is active.
\<close>

definition sessionQuery :: "db \<Rightarrow> int \<Rightarrow> session_row list" where
  "sessionQuery d sessionId =
     filter (\<lambda>s. s_id s = sessionId \<and> s_status s = ''active'') (sessions d)"

definition participantQuery :: "db \<Rightarrow> int \<Rightarrow> int \<Rightarrow> participant_row list" where
  "participantQuery d sessionId userId =
     filter (\<lambda>p. p_session_id p = sessionId \<and> p_user_id p = userId) (session_participants d)"

text \<open>
  \<^verbatim>\<open>POST /api/sessions/:id/join\<close>, after \<^verbatim>\<open>verifyToken\<close> has set the user; \<open>pool\<close> is
  the module's \<^verbatim>\<open>pool\<close> and \<open>d\<close> the content of the database. Everything that
  throws inside the \<^verbatim>\<open>try\<close> ends in the \<^verbatim>\<open>catch\<close>, which answers 500:
  \<^verbatim>\<open>pool.query\<close> on an undefined pool, a parameter outside the range of the column
  it is compared with, and the insert when it violates the foreign key on
  \<^verbatim>\<open>user_id\<close>. A database that cannot be reached is not modelled.
\<close>

definition post_join :: "pg_pool option \<Rightarrow> db \<Rightarrow> int \<Rightarrow> int \<Rightarrow> db \<times> response" where
  "post_join pool d userId sessionId =
     (case pool of
        None \<Rightarrow> (d, \<lparr>status = 500, body = ErrorBody ''Internal server error''\<rparr>)
      | Some p \<Rightarrow>
          if int4 sessionId then
            (if sessionQuery d sessionId = [] then
               (d, \<lparr>status = 404, body = ErrorBody ''Session not found or not active''\<rparr>)
             else if int4 userId then
               (if participantQuery d sessionId userId \<noteq> [] then
                  (d, \<lparr>status = 400, body = ErrorBody ''Already joined this session''\<rparr>)
                else if userId \<in> set (users d) then
                  (d\<lparr>session_participants :=
                        session_participants d
                          @ [\<lparr>p_session_id = sessionId, p_user_id = userId\<rparr>]\<rparr>,
                   \<lparr>status = 200, body = MessageBody ''Successfully joined session''\<rparr>)
                else (d, \<lparr>status = 500, body = ErrorBody ''Internal server error''\<rparr>))
             else (d, \<lparr>status = 500, body = ErrorBody ''Internal server error''\<rparr>))
          else (d, \<lparr>status = 500, body = ErrorBody ''Internal server error''\<rparr>))"

text \<open>
  The access check shared by the transcript routes: the session exists and the user
  is its host or one of its participants.
\<close>

definition accessQuery :: "db \<Rightarrow> int \<Rightarrow> int \<Rightarrow> session_row list" where
  "accessQuery d sessionId userId =
     filter (\<lambda>s. s_id s = sessionId \<and>
                  (s_host_id s = userId \<or>
                   s_id s \<in> set (map p_session_id
                                   (filter (\<lambda>p. p_user_id p = userId) (session_participants d)))))
            (sessions d)"

text \<open>
  \<^verbatim>\<open>SELECT text FROM transcripts WHERE session_id = $1 ORDER BY timestamp ASC\<close>; rows of
  equal timestamp are kept in table order.
\<close>

definition transcriptsQuery :: "db \<Rightarrow> int \<Rightarrow> string list" where
  "transcriptsQuery d sessionId =
     map t_text (sort_key t_timestamp (filter (\<lambda>t. t_session_id t = sessionId) (transcripts d)))"

definition mock_transcripts :: "string list" where
  "mock_transcripts =
     [''Welcome to our virtual conference session. Today we will be discussing the latest advancements in AI technology.'',
      ''The first topic is machine learning algorithms and their applications in business processes.'',
      ''Participants are sharing their experiences with implementing AI solutions in various industries.'',
      ''Key challenges include data quality, integration with existing systems, and ethical considerations.'',
      ''The discussion is progressing well with good engagement from all attendees.'']"

text \<open>
  The column \<^verbatim>\<open>summaries.summary_type\<close> carries
  \<^verbatim>\<open>CHECK (summary_type IN ('rolling', 'final', 'key_points'))\<close>; a null value passes a
  check constraint.
\<close>

definition summary_type_check :: "string option \<Rightarrow> bool" where
  "summary_type_check ty =
     (case ty of None \<Rightarrow> True | Some t \<Rightarrow> t = ''rolling'' \<or> t = ''final'' \<or> t = ''key_points'')"

text \<open>
  \<^verbatim>\<open>POST /api/transcripts/summaries\<close>, after \<^verbatim>\<open>verifyToken\<close>; \<open>geminiService\<close> is
  the service object the route module requires, \<open>pool\<close> the module's \<^verbatim>\<open>pool\<close> and
  \<open>d\<close> the content of the database. The database supplies the serial id
  \<open>new_id\<close> and the time \<open>now\<close> of the inserted row. The route's \<^verbatim>\<open>catch\<close>
  answers 500 when \<^verbatim>\<open>pool.query\<close> throws on an undefined pool, when a parameter is
  outside the range of the column it is compared with, and when the insert violates
  the check constraint. The JSON columns are kept as lists instead of their text.
\<close>

definition post_summaries ::
  "GeminiService \<Rightarrow> pg_pool option \<Rightarrow> db \<Rightarrow> int \<Rightarrow> int \<Rightarrow> int \<Rightarrow> int \<Rightarrow> string option
     \<Rightarrow> db \<times> response" where
  "post_summaries geminiService pool d new_id now userId sessionId summaryType =
     (case pool of
        None \<Rightarrow> (d, \<lparr>status = 500, body = ErrorBody ''Internal server error''\<rparr>)
      | Some p \<Rightarrow>
          if int4 sessionId \<and> int4 userId then
            (if accessQuery d sessionId userId = [] then
               (d, \<lparr>status = 403, body = ErrorBody ''Access denied to this session''\<rparr>)
             else
               (let stored = transcriptsQuery d sessionId;
                    ts = (if length stored = 0 then mock_transcripts else stored);
                    summaryData = generateSummary geminiService ts summaryType
                in if summary_type_check summaryType then
                     (let row = \<lparr>sm_id = new_id, sm_session_id = sessionId,
                                 sm_summary_type = summaryType,
                                 sm_content = content summaryData,
                                 sm_key_points = keyPoints summaryData,
                                 sm_action_items = actionItems summaryData,
                                 sm_created_at = now\<rparr>
                      in (d\<lparr>summaries := summaries d @ [row]\<rparr>,
                          \<lparr>status = 201, body = SummaryBody row\<rparr>))
                   else (d, \<lparr>status = 500, body = ErrorBody ''Internal server error''\<rparr>)))
          else (d, \<lparr>status = 500, body = ErrorBody ''Internal server error''\<rparr>))"

section \<open>Example inputs\<close>

text \<open>
  Two sockets, both in room 1 (each also in the room of its own id); the chat payload
  that \<^verbatim>\<open>ChatPanel.sendMessage\<close> builds and the typing payload of
  \<^verbatim>\<open>ChatPanel.handleTyping\<close>.
\<close>

definition two_in_room :: relay where
  "two_in_room =
     adapter_add (adapter_add (adapter_add (adapter_add initial
       ''c1'' (RStr ''c1'')) ''c2'' (RStr ''c2'')) ''c1'' (RNum 1)) ''c2'' (RNum 1)"

definition chat_at :: "string \<Rightarrow> jsval" where
  "chat_at ts =
     JObj [(''sessionId'', JNum 1), (''userId'', JNum 7), (''userName'', JStr ''Ann''),
           (''text'', JStr ''hi''), (''timestamp'', JStr ts), (''type'', JStr ''message'')]"

definition chat_hi :: jsval where
  "chat_hi = chat_at ''2024-05-01T10:00:00.000Z''"

definition typing_on :: jsval where
  "typing_on = JObj [(''sessionId'', JNum 1), (''userId'', JNum 7), (''isTyping'', JBool True)]"

text \<open>
  A database with one user, who hosts the active session 1, and the ended session
  42; no transcript is stored.
\<close>

definition demo_db :: db where
  "demo_db =
     \<lparr>users = [7],
      sessions = [\<lparr>s_id = 1, s_host_id = 7, s_status = ''active''\<rparr>,
                  \<lparr>s_id = 42, s_host_id = 7, s_status = ''ended''\<rparr>],
      session_participants = [],
      transcripts = [],
      summaries = []\<rparr>"

text \<open>The state after one socket has joined room 1 and then room 2.\<close>

definition joined_twice :: relay where
  "joined_twice =
     adapter_add (adapter_add (adapter_add initial ''c1'' (RStr ''c1'')) ''c1'' (RNum 1)) ''c1'' (RNum 2)"

text \<open>A service whose external model answers every prompt with the same text.\<close>

definition canned_service :: GeminiService where
  "canned_service = \<lparr>model = (\<lambda>prompt. Some ''  A summary written by the model.  '')\<rparr>"

section \<open>Properties of the relay\<close>

subsection \<open>The adapter tables\<close>

lemma membersOf_initial: "membersOf initial r = {}"
  by (simp add: initial_def membersOf_def)

lemma roomsOf_initial: "roomsOf initial sid = {}"
  by (simp add: initial_def roomsOf_def)

lemma membersOf_adapter_add:
  "membersOf (adapter_add st sid r) r' =
     (if r' = r then insert sid (membersOf st r) else membersOf st r')"
  by (simp add: adapter_add_def membersOf_def)

lemma roomsOf_adapter_add:
  "roomsOf (adapter_add st sid r) sid' =
     (if sid' = sid then insert r (roomsOf st sid) else roomsOf st sid')"
  by (simp add: adapter_add_def roomsOf_def)

lemma sids_adapter_add: "sids (adapter_add st sid r) sid \<noteq> None"
  by (simp add: adapter_add_def)

lemma sids_adapter_add_other: "sids st sid' \<noteq> None \<Longrightarrow> sids (adapter_add st sid r) sid' \<noteq> None"
  by (simp add: adapter_add_def)


lemma membersOf_adapter_del_all:
  "membersOf (adapter_del_all st sid) r =
     (if r \<in> roomsOf st sid then membersOf st r - {sid} else membersOf st r)"
  by (auto simp: adapter_del_all_def membersOf_def roomsOf_def split: option.splits)

lemma roomsOf_adapter_del_all:
  "roomsOf (adapter_del_all st sid) sid' = (if sid' = sid then {} else roomsOf st sid')"
  by (auto simp: adapter_del_all_def roomsOf_def split: option.splits)

lemma as_room_room_val: "as_room (room_val r) = Some r"
  by (cases r) simp_all

lemma socket_join_room_val: "socket_join st sid (room_val r) = adapter_add st sid r"
  by (simp add: socket_join_def as_room_room_val)


subsection \<open>The handlers\<close>

lemma on_packet_join: "on_packet st sid ''join-session'' v = Inr (socket_join st sid v, [])"
  by (simp add: on_packet_def on_join_session_def)

lemma forward_emits:
  "get_prop data ''sessionId'' = Inr v \<Longrightarrow> as_room v = Some r \<Longrightarrow>
   forward ev st sid data =
     Inr (st, [\<lparr>em_to = membersOf st r - {sid}, em_event = ev, em_data = data\<rparr>])"
  by (simp add: forward_def socket_to_emit_def socket_to_def)

lemma forward_out:
  "forward ev st sid data = Inr (st', out) \<Longrightarrow> e \<in> set out \<Longrightarrow>
   st' = st \<and> sid \<notin> em_to e \<and> em_event e = ev \<and> em_data e = data"
  by (auto simp: forward_def socket_to_emit_def socket_to_def split: sum.splits option.splits)

lemma on_packet_out:
  "on_packet st sid name data = Inr (st', out) \<Longrightarrow> e \<in> set out \<Longrightarrow>
   sid \<notin> em_to e \<and> em_event e = name \<and> em_data e = data"
  by (auto simp: on_packet_def on_join_session_def on_caption_update_def on_chat_message_def
      on_summary_update_def dest: forward_out split: if_splits)

lemma on_packet_forwarding:
  assumes n: "name \<in> {''caption-update'', ''chat-message'', ''summary-update''}"
    and g: "get_prop data ''sessionId'' = Inr v" and a: "as_room v = Some r"
  shows "on_packet st sid name data =
      Inr (st, [\<lparr>em_to = membersOf st r - {sid}, em_event = name, em_data = data\<rparr>])"
proof -
  from n consider "name = ''caption-update''" | "name = ''chat-message''"
    | "name = ''summary-update''"
    by blast
  then show ?thesis
  proof cases
    case 1
    then show ?thesis by (simp add: on_packet_def on_caption_update_def forward_emits [OF g a])
  next
    case 2
    then show ?thesis by (simp add: on_packet_def on_chat_message_def forward_emits [OF g a])
  next
    case 3
    then show ?thesis by (simp add: on_packet_def on_summary_update_def forward_emits [OF g a])
  qed
qed

text \<open>An event of any other name changes nothing and is delivered to nobody.\<close>

lemma on_packet_unhandled:
  "name \<notin> {''join-session'', ''caption-update'', ''chat-message'', ''summary-update''} \<Longrightarrow>
   on_packet st sid name arg = Inr (st, [])"
  by (simp add: on_packet_def)

lemma on_packet_state:
  "on_packet st sid name arg = Inr (st', out) \<Longrightarrow> st' = st \<or> (\<exists>r. st' = adapter_add st sid r)"
  by (auto simp: on_packet_def on_join_session_def on_caption_update_def on_chat_message_def
      on_summary_update_def forward_def socket_join_def split: if_splits sum.splits option.splits)

subsection \<open>Reachable states\<close>

lemma run_reachable: "reachable st \<Longrightarrow> run st is = Inr (st', out) \<Longrightarrow> reachable st'"
proof (induction "is" arbitrary: st st' out)
  case Nil
  then show ?case by simp
next
  case (Cons i "is")
  from Cons.prems(2) obtain st1 out1 st2 out2 where
    s: "step st i = Inr (st1, out1)" and r: "run st1 is = Inr (st2, out2)" and e: "st' = st2"
    by (auto split: sum.splits prod.splits)
  from Cons.prems(1) s have "reachable st1" by (rule reachable_step)
  with Cons.IH r e show ?case by blast
qed

lemma consistent_adapter_add: "consistent st \<Longrightarrow> consistent (adapter_add st sid r)"
  by (auto simp: consistent_def membersOf_adapter_add roomsOf_adapter_add)

lemma consistent_adapter_del_all: "consistent st \<Longrightarrow> consistent (adapter_del_all st sid)"
  by (auto simp: consistent_def membersOf_adapter_del_all roomsOf_adapter_del_all)

text \<open>
  In every reachable state a socket is a member of exactly the rooms that the
  adapter lists for it, and no room is empty.
\<close>

lemma reachable_consistent: "reachable st \<Longrightarrow> consistent st"
proof (induction rule: reachable.induct)
  case reachable_initial
  then show ?case by (simp add: consistent_def membersOf_initial roomsOf_initial)
next
  case (reachable_step st i st' out)
  show ?case
  proof (cases i)
    case (Connect sid)
    with reachable_step show ?thesis by (auto simp: consistent_adapter_add)
  next
    case (Packet sid name arg)
    with reachable_step show ?thesis
      by (auto split: if_splits dest!: on_packet_state simp: consistent_adapter_add)
  next
    case (Disconnect sid)
    with reachable_step show ?thesis by (auto simp: consistent_adapter_del_all)
  qed
qed

lemma reachable_no_empty_room: "reachable st \<Longrightarrow> rooms st r \<noteq> Some {}"
proof (induction rule: reachable.induct)
  case reachable_initial
  then show ?case by (simp add: initial_def)
next
  case (reachable_step st i st' out)
  show ?case
  proof (cases i)
    case (Connect sid)
    with reachable_step show ?thesis by (auto simp: adapter_add_def split: if_splits)
  next
    case (Packet sid name arg)
    with reachable_step show ?thesis
      by (auto split: if_splits dest!: on_packet_state simp: adapter_add_def)
  next
    case (Disconnect sid)
    with reachable_step show ?thesis
      by (auto simp: adapter_del_all_def split: option.splits if_splits)
  qed
qed

subsection \<open>The example inputs\<close>

lemma members_two_in_room: "membersOf two_in_room (RNum 1) = {''c1'', ''c2''}"
  by (auto simp add: two_in_room_def membersOf_adapter_add membersOf_initial)

lemma sids_two_in_room: "sids two_in_room ''c1'' \<noteq> None" "sids two_in_room ''c2'' \<noteq> None"
  by (simp_all add: two_in_room_def adapter_add_def)

lemma chat_at_sessionId: "get_prop (chat_at ts) ''sessionId'' = Inr (JNum 1)"
  by (simp add: chat_at_def)

lemma chat_at_timestamp: "get_prop (chat_at ts) ''timestamp'' = Inr (JStr ts)"
  by (simp add: chat_at_def)

lemma run_two_in_room:
  "run initial [Connect ''c1'', Connect ''c2'', Packet ''c1'' ''join-session'' (JNum 1),
                Packet ''c2'' ''join-session'' (JNum 1)] = Inr (two_in_room, [])"
  by (simp add: two_in_room_def on_packet_join socket_join_def sids_adapter_add
      sids_adapter_add_other)

lemma reachable_two_in_room: "reachable two_in_room"
  using run_reachable [OF reachable_initial run_two_in_room] .

lemma chat_in_two_in_room:
  "on_packet two_in_room ''c1'' ''chat-message'' (chat_at ts)
     = Inr (two_in_room, [\<lparr>em_to = {''c2''}, em_event = ''chat-message'', em_data = chat_at ts\<rparr>])"
  using on_packet_forwarding [of "''chat-message''" "chat_at ts" "JNum 1" "RNum 1" two_in_room "''c1''"]
  by (simp add: chat_at_sessionId members_two_in_room insert_Diff_if)

lemma run_joined_twice:
  "run initial [Connect ''c1'', Packet ''c1'' ''join-session'' (JNum 1),
                Packet ''c1'' ''join-session'' (JNum 2)] = Inr (joined_twice, [])"
  by (simp add: joined_twice_def on_packet_join socket_join_def sids_adapter_add
      sids_adapter_add_other)

lemma demo_db_sessionQuery: "sessionQuery demo_db 42 = []" "sessionQuery demo_db 43 = []"
  by (simp_all add: sessionQuery_def demo_db_def)

section \<open>The claims about the relay\<close>

text \<open>
  C1. An inbound \<^verbatim>\<open>caption-update\<close>, \<^verbatim>\<open>chat-message\<close> or \<^verbatim>\<open>summary-update\<close> is delivered
  to the members of the room named by the payload's \<^verbatim>\<open>sessionId\<close> other than the
  sending socket, and no emission of any handler is ever addressed to the socket
  that sent the event.
\<close>

theorem publish_excludes_sender:
  "(\<forall>st' out e. on_packet st sid name data = Inr (st', out) \<longrightarrow> e \<in> set out \<longrightarrow> sid \<notin> em_to e) \<and>
   (name \<in> {''caption-update'', ''chat-message'', ''summary-update''} \<longrightarrow>
    get_prop data ''sessionId'' = Inr v \<longrightarrow> as_room v = Some r \<longrightarrow>
    on_packet st sid name data =
      Inr (st, [\<lparr>em_to = membersOf st r - {sid}, em_event = name, em_data = data\<rparr>]))"
  using on_packet_out on_packet_forwarding by blast

text \<open>
  C1 at a concrete input: \<open>c1\<close> and \<open>c2\<close> are in room 1 and \<open>c1\<close> sends a chat
  message; only \<open>c2\<close> receives it.
\<close>

theorem publish_excludes_sender_witness:
  "''chat-message'' \<in> {''caption-update'', ''chat-message'', ''summary-update''} \<and>
   get_prop chat_hi ''sessionId'' = Inr (JNum 1) \<and> as_room (JNum 1) = Some (RNum 1) \<and>
   on_packet two_in_room ''c1'' ''chat-message'' chat_hi =
     Inr (two_in_room, [\<lparr>em_to = {''c2''}, em_event = ''chat-message'', em_data = chat_hi\<rparr>]) \<and>
   ''c1'' \<notin> em_to \<lparr>em_to = {''c2''}, em_event = ''chat-message'', em_data = chat_hi\<rparr>"
  using publish_excludes_sender [of two_in_room "''c1''" "''chat-message''" chat_hi "JNum 1" "RNum 1"]
  by (simp add: chat_hi_def chat_at_sessionId members_two_in_room insert_Diff_if)

text \<open>
  C2, as stated, fails: the \<^verbatim>\<open>join-session\<close> handler never asks whether the session
  exists or is active. In \<open>demo_db\<close> session 42 has ended and session 43 does not
  exist (the query for an active session of that id finds no row), yet a socket
  that sends \<^verbatim>\<open>join-session\<close> for either becomes a member of that room.
\<close>

theorem join_session_ignores_session_state:
  "sessionQuery demo_db 42 = [] \<and> sessionQuery demo_db 43 = [] \<and>
   on_packet two_in_room ''c1'' ''join-session'' (JNum 42)
     = Inr (adapter_add two_in_room ''c1'' (RNum 42), []) \<and>
   ''c1'' \<in> membersOf (adapter_add two_in_room ''c1'' (RNum 42)) (RNum 42) \<and>
   on_packet two_in_room ''c1'' ''join-session'' (JNum 43)
     = Inr (adapter_add two_in_room ''c1'' (RNum 43), []) \<and>
   ''c1'' \<in> membersOf (adapter_add two_in_room ''c1'' (RNum 43)) (RNum 43)"
  by (simp add: demo_db_sessionQuery on_packet_join socket_join_def membersOf_adapter_add)

text \<open>
  C2, amended: a \<^verbatim>\<open>join-session\<close> for a room name never fails and consults nothing;
  it adds the socket to the member set of the room, creating the room when it is
  absent.
\<close>

theorem join_session_always_adds:
  "on_packet st sid ''join-session'' (room_val r) = Inr (adapter_add st sid r, []) \<and>
   membersOf (adapter_add st sid r) r = insert sid (membersOf st r) \<and>
   rooms (adapter_add st sid r) r \<noteq> None"
  by (simp add: on_packet_join socket_join_room_val membersOf_adapter_add)
    (simp add: adapter_add_def)

text \<open>
  C3, as stated, fails: a socket that joins room 1 and then room 2 is, in the
  reachable state that results, a member of both.
\<close>

theorem second_join_keeps_first_room:
  "reachable joined_twice \<and>
   ''c1'' \<in> membersOf joined_twice (RNum 1) \<and> ''c1'' \<in> membersOf joined_twice (RNum 2) \<and>
   RNum 1 \<noteq> RNum 2"
  using run_reachable [OF reachable_initial run_joined_twice]
  by (simp add: joined_twice_def membersOf_adapter_add)

text \<open>
  C3, amended: a socket may be a member of several rooms. A join adds the joined
  room to its memberships and removes none: every membership that held before the
  join holds after it, and the socket is a member of the joined room.
\<close>

theorem join_keeps_prior_membership:
  "on_packet st sid ''join-session'' (room_val r2) = Inr (st', out) \<Longrightarrow>
   (\<forall>c r. c \<in> membersOf st r \<longrightarrow> c \<in> membersOf st' r) \<and> sid \<in> membersOf st' r2"
  by (auto simp: on_packet_join socket_join_room_val membersOf_adapter_add)

text \<open>C3, amended, at a concrete input: \<open>c1\<close>, in room 1, joins room 2.\<close>

theorem join_keeps_prior_membership_witness:
  "on_packet two_in_room ''c1'' ''join-session'' (room_val (RNum 2))
     = Inr (adapter_add two_in_room ''c1'' (RNum 2), []) \<and>
   ''c1'' \<in> membersOf two_in_room (RNum 1) \<and>
   ''c1'' \<in> membersOf (adapter_add two_in_room ''c1'' (RNum 2)) (RNum 1) \<and>
   ''c1'' \<in> membersOf (adapter_add two_in_room ''c1'' (RNum 2)) (RNum 2)"
proof -
  have j: "on_packet two_in_room ''c1'' ''join-session'' (room_val (RNum 2))
     = Inr (adapter_add two_in_room ''c1'' (RNum 2), [])"
    by (simp add: on_packet_join socket_join_def)
  have m: "''c1'' \<in> membersOf two_in_room (RNum 1)"
    by (simp add: members_two_in_room)
  from join_keeps_prior_membership [OF j] m show ?thesis
    using j by blast
qed

text \<open>
  C4: the server registers no handler for \<^verbatim>\<open>leave-session\<close>, which
  \<^verbatim>\<open>Dashboard.leaveSession\<close> emits. After \<open>c2\<close> has sent \<^verbatim>\<open>leave-session\<close> for room 1
  the relay is in the same state as before, and a chat message that \<open>c1\<close> then
  sends to room 1 is still delivered to \<open>c2\<close>.
\<close>

theorem leave_session_has_no_handler:
  "run initial [Connect ''c1'', Connect ''c2'',
                Packet ''c1'' ''join-session'' (JNum 1), Packet ''c2'' ''join-session'' (JNum 1),
                Packet ''c2'' ''leave-session'' (JNum 1),
                Packet ''c1'' ''chat-message'' chat_hi]
     = Inr (two_in_room, [\<lparr>em_to = {''c2''}, em_event = ''chat-message'', em_data = chat_hi\<rparr>])"
proof -
  have l: "on_packet two_in_room ''c2'' ''leave-session'' (JNum 1) = Inr (two_in_room, [])"
    by (simp add: on_packet_def)
  have c: "on_packet two_in_room ''c1'' ''chat-message'' chat_hi
     = Inr (two_in_room, [\<lparr>em_to = {''c2''}, em_event = ''chat-message'', em_data = chat_hi\<rparr>])"
    by (simp add: chat_hi_def chat_in_two_in_room)
  have "run two_in_room [Packet ''c2'' ''leave-session'' (JNum 1),
                         Packet ''c1'' ''chat-message'' chat_hi]
     = Inr (two_in_room, [\<lparr>em_to = {''c2''}, em_event = ''chat-message'', em_data = chat_hi\<rparr>])"
    by (simp add: sids_two_in_room l c)
  then show ?thesis
    by (simp add: on_packet_join socket_join_def sids_adapter_add sids_adapter_add_other
        two_in_room_def)
qed



text \<open>
  C6, as stated, fails: the relay sets no timestamp. In one and the same state a
  chat message whose payload carries the timestamp of 1999 is delivered with that
  timestamp, and one that carries a timestamp of 2038 is delivered with that one.
\<close>

theorem delivered_timestamp_is_the_senders:
  "on_packet two_in_room ''c1'' ''chat-message'' (chat_at ''1999-12-31T23:59:59.000Z'')
     = Inr (two_in_room, [\<lparr>em_to = {''c2''}, em_event = ''chat-message'',
                           em_data = chat_at ''1999-12-31T23:59:59.000Z''\<rparr>]) \<and>
   get_prop (chat_at ''1999-12-31T23:59:59.000Z'') ''timestamp''
     = Inr (JStr ''1999-12-31T23:59:59.000Z'') \<and>
   on_packet two_in_room ''c1'' ''chat-message'' (chat_at ''2038-01-19T03:14:07.000Z'')
     = Inr (two_in_room, [\<lparr>em_to = {''c2''}, em_event = ''chat-message'',
                           em_data = chat_at ''2038-01-19T03:14:07.000Z''\<rparr>]) \<and>
   get_prop (chat_at ''2038-01-19T03:14:07.000Z'') ''timestamp''
     = Inr (JStr ''2038-01-19T03:14:07.000Z'')"
  by (simp add: chat_in_two_in_room chat_at_timestamp)

text \<open>
  C6, amended: the relay assigns no timestamp. Whatever a handler emits carries
  exactly the payload that the sender sent, so the timestamp that reaches the
  recipients is the one in the sender's payload.
\<close>

theorem forwarded_timestamp_from_payload:
  "on_packet st sid name data = Inr (st', out) \<Longrightarrow> e \<in> set out \<Longrightarrow>
   em_data e = data \<and> get_prop (em_data e) ''timestamp'' = get_prop data ''timestamp''"
  using on_packet_out by fastforce

text \<open>C6, amended, at a concrete input: the chat message of \<open>c1\<close> in room 1.\<close>

theorem forwarded_timestamp_from_payload_witness:
  "on_packet two_in_room ''c1'' ''chat-message'' chat_hi
     = Inr (two_in_room, [\<lparr>em_to = {''c2''}, em_event = ''chat-message'', em_data = chat_hi\<rparr>]) \<and>
   get_prop (em_data \<lparr>em_to = {''c2''}, em_event = ''chat-message'', em_data = chat_hi\<rparr>)
     ''timestamp'' = Inr (JStr ''2024-05-01T10:00:00.000Z'')"
proof -
  have c: "on_packet two_in_room ''c1'' ''chat-message'' chat_hi
     = Inr (two_in_room, [\<lparr>em_to = {''c2''}, em_event = ''chat-message'', em_data = chat_hi\<rparr>])"
    by (simp add: chat_hi_def chat_in_two_in_room)
  have "get_prop chat_hi ''timestamp'' = Inr (JStr ''2024-05-01T10:00:00.000Z'')"
    by (simp add: chat_hi_def chat_at_timestamp)
  with forwarded_timestamp_from_payload [OF c,
      of "\<lparr>em_to = {''c2''}, em_event = ''chat-message'', em_data = chat_hi\<rparr>"]
  show ?thesis using c by simp
qed

text \<open>
  C7: the server registers no handler for \<^verbatim>\<open>typing\<close>, which \<^verbatim>\<open>ChatPanel.handleTyping\<close>
  emits and \<^verbatim>\<open>ChatPanel\<close> listens for. With \<open>c1\<close> and \<open>c2\<close> in room 1, a
  \<^verbatim>\<open>typing\<close> event of \<open>c1\<close> for room 1 is delivered to nobody.
\<close>

theorem typing_has_no_handler:
  "run initial [Connect ''c1'', Connect ''c2'',
                Packet ''c1'' ''join-session'' (JNum 1), Packet ''c2'' ''join-session'' (JNum 1),
                Packet ''c1'' ''typing'' typing_on]
     = Inr (two_in_room, [])"
proof -
  have t: "on_packet two_in_room ''c1'' ''typing'' typing_on = Inr (two_in_room, [])"
    by (simp add: on_packet_def)
  have "run two_in_room [Packet ''c1'' ''typing'' typing_on] = Inr (two_in_room, [])"
    by (simp add: sids_two_in_room t)
  then show ?thesis
    by (simp add: on_packet_join socket_join_def sids_adapter_add sids_adapter_add_other
        two_in_room_def)
qed



section \<open>The REST routes as wired\<close>

text \<open>
  The routes are required before server.js sets its exports, so their \<^verbatim>\<open>pool\<close> is
  undefined; had the exports been set first, it would be the pool.
\<close>

lemma routes_pool_undefined: "routes_pool = None"
  by (simp add: routes_pool_def load_module_def server_js_def)

lemma exports_before_require:
  "required_pool (load_module [NewPool, SetModuleExports, RequireRoutes]) = Some PgPool"
  by (simp add: load_module_def)

text \<open>Without a pool both routes answer 500 to every request and store nothing.\<close>

lemma post_join_no_pool:
  "post_join None d userId sessionId
     = (d, \<lparr>status = 500, body = ErrorBody ''Internal server error''\<rparr>)"
  by (simp add: post_join_def)

lemma post_summaries_no_pool:
  "post_summaries geminiService None d new_id now userId sessionId summaryType
     = (d, \<lparr>status = 500, body = ErrorBody ''Internal server error''\<rparr>)"
  by (simp add: post_summaries_def)

text \<open>
  What the body of the join route does when it is given a pool: it checks the
  session, and it refuses a repeated join with 400, the participants staying as
  they were.
\<close>

lemma post_join_twice:
  assumes "post_join (Some p) d userId sessionId
             = (d', \<lparr>status = 200, body = MessageBody ''Successfully joined session''\<rparr>)"
  shows "post_join (Some p) d' userId sessionId
           = (d', \<lparr>status = 400, body = ErrorBody ''Already joined this session''\<rparr>)"
proof -
  from assms have a: "sessionQuery d sessionId \<noteq> []"
    and i: "int4 sessionId" "int4 userId"
    and d': "d' = d\<lparr>session_participants :=
              session_participants d @ [\<lparr>p_session_id = sessionId, p_user_id = userId\<rparr>]\<rparr>"
    by (auto simp: post_join_def split: if_splits)
  from a d' have "sessionQuery d' sessionId \<noteq> []"
    by (simp add: sessionQuery_def)
  moreover from d' have "participantQuery d' sessionId userId \<noteq> []"
    by (simp add: participantQuery_def)
  ultimately show ?thesis
    using i by (simp add: post_join_def)
qed

section \<open>The claims about the summary service and the summaries route\<close>

lemma generateSummary_ignores_service:
  "generateSummary this ts ty = generateSummary this' ts ty"
  by (simp add: generateSummary_def)

text \<open>\<^verbatim>\<open>translateText\<close> returns what the external model answers, trimmed.\<close>

lemma translateText_returns_model_response:
  "model this (''Translate the following text to '' @ targetLanguage
               @ ''. Source language: auto. Text: '' @ [CHR 0x22] @ text @ [CHR 0x22])
     = Some response \<Longrightarrow>
   translateText this text targetLanguage None = Inr (trim response)"
  by (simp add: translateText_def)

lemma translateText_canned:
  "translateText canned_service ''Hello'' ''es'' None = Inr ''A summary written by the model.''"
  by (simp add: translateText_def canned_service_def trim_def is_space_def)

text \<open>
  C9: \<^verbatim>\<open>generateSummary\<close> does not forward the transcripts to the external model. On
  a service whose model would answer \<^verbatim>\<open>A summary written by the model.\<close> the rolling
  summary of one transcript is put together from the words of the transcript
  itself.
\<close>

theorem generateSummary_is_local:
  "generateSummary canned_service [''Hello world. This is a test sentence number one.'']
     (Some ''rolling'')
     = \<lparr>content = ''Recent developments: Hello world. This test sentence number one.. The conversation is progressing well.'',
        keyPoints = [], actionItems = []\<rparr>"
  by (simp add: generateSummary_def split_re_def is_space_def slice_last_def)

lemma generateSummary_mock_rolling:
  "generateSummary this mock_transcripts None
     = \<lparr>content = ''Recent developments: existing systems, and ethical considerations. The discussion progressing well with good engagement from all attendees.. The conversation is progressing well.'',
        keyPoints = [], actionItems = []\<rparr>"
  by (simp add: generateSummary_def mock_transcripts_def split_re_def is_space_def slice_last_def)

lemma demo_db_access: "accessQuery demo_db 1 7 \<noteq> []"
  by (simp add: accessQuery_def demo_db_def)

lemma demo_db_transcripts: "transcriptsQuery demo_db 1 = []"
  by (simp add: transcriptsQuery_def demo_db_def)

lemma demo_db_int4: "int4 1" "int4 7"
  by (simp_all add: int4_def)

text \<open>
  What the body of the summaries route does when it is given a pool. For a request
  that passes the access check, on a session with no stored transcript, it stores
  the summary that \<^verbatim>\<open>generateSummary\<close> makes of the five built-in transcripts and
  answers 201 with the stored row when the summary type is absent or one of
  \<^verbatim>\<open>rolling\<close>, \<^verbatim>\<open>final\<close> and \<^verbatim>\<open>key_points\<close>; for any other summary type the insert
  violates the check constraint, nothing is stored and the answer is 500.
\<close>

lemma post_summaries_with_pool_mock_fallback:
  "int4 sessionId \<Longrightarrow> int4 userId \<Longrightarrow>
   accessQuery d sessionId userId \<noteq> [] \<Longrightarrow> transcriptsQuery d sessionId = [] \<Longrightarrow>
   summary_type_check summaryType \<Longrightarrow>
   post_summaries geminiService (Some p) d new_id now userId sessionId summaryType =
     (d\<lparr>summaries := summaries d @
           [\<lparr>sm_id = new_id, sm_session_id = sessionId, sm_summary_type = summaryType,
             sm_content = content (generateSummary geminiService mock_transcripts summaryType),
             sm_key_points = keyPoints (generateSummary geminiService mock_transcripts summaryType),
             sm_action_items =
               actionItems (generateSummary geminiService mock_transcripts summaryType),
             sm_created_at = now\<rparr>]\<rparr>,
      \<lparr>status = 201,
        body = SummaryBody
          \<lparr>sm_id = new_id, sm_session_id = sessionId, sm_summary_type = summaryType,
            sm_content = content (generateSummary geminiService mock_transcripts summaryType),
            sm_key_points = keyPoints (generateSummary geminiService mock_transcripts summaryType),
            sm_action_items =
              actionItems (generateSummary geminiService mock_transcripts summaryType),
            sm_created_at = now\<rparr>\<rparr>)"
  by (simp add: post_summaries_def Let_def)

lemma post_summaries_with_pool_unknown_type:
  "int4 sessionId \<Longrightarrow> int4 userId \<Longrightarrow> accessQuery d sessionId userId \<noteq> [] \<Longrightarrow>
   \<not> summary_type_check summaryType \<Longrightarrow>
   post_summaries geminiService (Some p) d new_id now userId sessionId summaryType
     = (d, \<lparr>status = 500, body = ErrorBody ''Internal server error''\<rparr>)"
  by (simp add: post_summaries_def Let_def)

lemma post_summaries_with_pool_demo:
  "post_summaries canned_service (Some PgPool) demo_db 1 1000 7 1 None =
     (demo_db\<lparr>summaries :=
           [\<lparr>sm_id = 1, sm_session_id = 1, sm_summary_type = None,
             sm_content = ''Recent developments: existing systems, and ethical considerations. The discussion progressing well with good engagement from all attendees.. The conversation is progressing well.'',
             sm_key_points = [], sm_action_items = [], sm_created_at = 1000\<rparr>]\<rparr>,
      \<lparr>status = 201,
        body = SummaryBody
          \<lparr>sm_id = 1, sm_session_id = 1, sm_summary_type = None,
            sm_content = ''Recent developments: existing systems, and ethical considerations. The discussion progressing well with good engagement from all attendees.. The conversation is progressing well.'',
            sm_key_points = [], sm_action_items = [], sm_created_at = 1000\<rparr>\<rparr>)"
proof -
  have s: "summaries demo_db = []" by (simp add: demo_db_def)
  have c: "summary_type_check None" by (simp add: summary_type_check_def)
  show ?thesis
    using post_summaries_with_pool_mock_fallback [OF demo_db_int4 demo_db_access
        demo_db_transcripts c, of canned_service PgPool 1 1000]
    by (simp add: s generateSummary_mock_rolling)
qed

text \<open>
  C10: the route is written to fall back on the five built-in transcripts and to
  answer 201, but as server.js wires it the route never gets that far. User 7,
  host of session 1, which has no stored transcript, asks for a rolling summary:
  the pool of the route module is undefined, the first \<^verbatim>\<open>pool.query\<close> throws,
  nothing is stored and the answer is 500.
\<close>

theorem post_summaries_pool_undefined:
  "routes_pool = None \<and>
   accessQuery demo_db 1 7 \<noteq> [] \<and> transcriptsQuery demo_db 1 = [] \<and>
   post_summaries canned_service routes_pool demo_db 1 1000 7 1 (Some ''rolling'')
     = (demo_db, \<lparr>status = 500, body = ErrorBody ''Internal server error''\<rparr>)"
  by (simp add: routes_pool_undefined demo_db_access demo_db_transcripts post_summaries_no_pool)

end
